theory Spec2Isabelle
  imports Complex_Main
begin

section \<open>The stock-consistency core of the point-of-sale server\<close>

text \<open>
  The development embeds three handlers of \<^verbatim>\<open>src/server/src/handlers\<close>:
  \<^verbatim>\<open>create_inventory_movement.ts\<close>, \<^verbatim>\<open>create_transaction.ts\<close> and
  \<^verbatim>\<open>update_transaction.ts\<close>, over the four tables of \<^verbatim>\<open>src/server/src/db/schema.ts\<close>
  they read and write.

  Conventions of the embedding.
  \<^item> Integer columns and \<^verbatim>\<open>z.number().int()\<close> inputs are \<open>int\<close>. The database
    refuses, with an error, a value outside the 32-bit range of an integer column; the
    model has no such error and stores the value. A property that a write succeeds, or
    of the value it leaves, is therefore a property of the code for values inside the
    range only (\<open>int4\<close> and \<open>fits_columns\<close> below state the range). Ids are integers
    too: the schemas type them \<^verbatim>\<open>z.number()\<close>, but an integer column refuses any
    other number.
  \<^item> Money (\<^verbatim>\<open>numeric(10,2)\<close> columns, written with \<^verbatim>\<open>toString\<close> and read back with
    \<^verbatim>\<open>parseFloat\<close>) is an exact rational. The code subtracts doubles and the column
    rounds what it stores to two decimals (and refuses an amount of \<open>10^8\<close> or more);
    the model does neither. For amounts of at most two decimals below \<open>10^8\<close>
    (\<open>money_value\<close> below) the two agree: the error of the double subtraction is far
    below half a cent, so the column's rounding returns the exact difference.
  \<^item> \<^verbatim>\<open>NOW()\<close> and \<^verbatim>\<open>new Date()\<close> are a parameter \<open>now\<close> of each handler.
  \<^item> A thrown \<^verbatim>\<open>Error\<close> is a value of type \<open>error\<close>; a handler returns the pair of
    its result (\<open>Inl\<close> the error) and the database it leaves behind.
  \<^item> A table with a primary key that the handlers look up by key is a map from the
    key; a table the handlers append to or filter is the list of its rows in insertion
    order. The \<^verbatim>\<open>serial\<close> key of a table is a counter of the database.
  \<^item> Only the columns the three handlers read or write are kept in \<open>product\<close>.
  \<^item> One handler runs at a time: no statement of another request comes between two
    statements of a handler.
  \<^item> Field names carry a prefix where two records of the source share a name:
    \<open>tx_\<close> (row of \<^verbatim>\<open>transactions\<close>), \<open>item_\<close> (row of \<^verbatim>\<open>transaction_items\<close>),
    \<open>mv_\<close> (row of \<^verbatim>\<open>inventory_movements\<close>), \<open>cim_\<close> (\<^verbatim>\<open>CreateInventoryMovementInput\<close>),
    \<open>cti_\<close> (\<^verbatim>\<open>CreateTransactionInput\<close>), \<open>ci_\<close> (one of its items) and \<open>ut_\<close>
    (\<^verbatim>\<open>UpdateTransactionInput\<close>).
\<close>

subsection \<open>Data model\<close>

type_synonym money = rat
type_synonym timestamp = nat

datatype movement_type = In | Out | Adjustment

datatype transaction_status = Pending | Completed | Cancelled

text \<open>
  The errors the handlers throw, by their messages: \<^verbatim>\<open>Product with ID ... not found\<close>
  (with the product's id), \<^verbatim>\<open>Transaction with id ... not found\<close> (with the
  transaction's id), \<^verbatim>\<open>Insufficient stock ...\<close> (with the available and the requested
  quantity), and the \<^verbatim>\<open>TypeError\<close> of reading a field of \<^verbatim>\<open>undefined\<close>.
\<close>

datatype error =
    ProductNotFound int
  | TransactionNotFound int
  | InsufficientStock int int
  | TypeError

record product =
  stock_quantity :: int
  product_updated_at :: timestamp

record transaction_row =
  tx_id :: int
  tx_customer_id :: "int option"
  tx_user_id :: int
  tx_total_amount :: money
  tx_discount_amount :: money
  tx_final_amount :: money
  tx_status :: transaction_status
  tx_payment_method :: "string option"
  tx_notes :: "string option"
  tx_created_at :: timestamp
  tx_updated_at :: timestamp

record transaction_item =
  item_id :: int
  item_transaction_id :: int
  item_product_id :: int
  item_quantity :: int
  item_unit_price :: money
  item_total_price :: money
  item_created_at :: timestamp

record inventory_movement =
  mv_id :: int
  mv_product_id :: int
  mv_movement_type :: movement_type
  mv_quantity :: int
  mv_reference_type :: "string option"
  mv_reference_id :: "int option"
  mv_notes :: "string option"
  mv_created_at :: timestamp

record db =
  productsTable :: "int \<rightharpoonup> product"
  transactionsTable :: "int \<rightharpoonup> transaction_row"
  transactionItemsTable :: "transaction_item list"
  inventoryMovementsTable :: "inventory_movement list"
  transactions_id_seq :: int
  transaction_items_id_seq :: int
  inventory_movements_id_seq :: int

record CreateInventoryMovementInput =
  cim_product_id :: int
  cim_movement_type :: movement_type
  cim_quantity :: int
  cim_reference_type :: "string option"
  cim_reference_id :: "int option"
  cim_notes :: "string option"

record create_item =
  ci_product_id :: int
  ci_quantity :: int
  ci_unit_price :: money

record CreateTransactionInput =
  cti_customer_id :: "int option"
  cti_user_id :: int
  cti_total_amount :: money
  cti_discount_amount :: money
  cti_payment_method :: "string option"
  cti_notes :: "string option"
  cti_items :: "create_item list"

text \<open>
  In \<^verbatim>\<open>UpdateTransactionInput\<close> every field but \<^verbatim>\<open>id\<close> is optional: \<open>None\<close> is
  \<^verbatim>\<open>undefined\<close>. A nullable optional field is an option of an option, \<open>Some None\<close>
  being \<^verbatim>\<open>null\<close>.
\<close>

record UpdateTransactionInput =
  ut_id :: int
  ut_customer_id :: "int option option"
  ut_total_amount :: "money option"
  ut_discount_amount :: "money option"
  ut_status :: "transaction_status option"
  ut_payment_method :: "string option option"
  ut_notes :: "string option option"

text \<open>The test \<^verbatim>\<open>x !== undefined\<close> on an optional field.\<close>

definition defined :: "'a option \<Rightarrow> bool" where
  "defined x = (x \<noteq> None)"

subsection \<open>Database statements\<close>

text \<open>
  \<^verbatim>\<open>db.transaction(body)\<close> of the query library: the body's writes are kept when it
  returns and discarded when it throws. A sequence is not transactional: the keys a
  discarded insert consumed stay consumed.
\<close>

definition rollback :: "db \<Rightarrow> db \<Rightarrow> db" where
  "rollback s s' =
     s\<lparr>transactions_id_seq := transactions_id_seq s',
       transaction_items_id_seq := transaction_items_id_seq s',
       inventory_movements_id_seq := inventory_movements_id_seq s'\<rparr>"

definition db_transaction :: "(db \<Rightarrow> (error + 'a) \<times> db) \<Rightarrow> db \<Rightarrow> (error + 'a) \<times> db" where
  "db_transaction body s =
     (case body s of
        (Inr r, s') \<Rightarrow> (Inr r, s')
      | (Inl e, s') \<Rightarrow> (Inl e, rollback s s'))"

text \<open>\<^verbatim>\<open>insert(inventoryMovementsTable).values(...).returning()\<close>: the row with its new key.\<close>

definition insert_movement ::
  "int \<Rightarrow> movement_type \<Rightarrow> int \<Rightarrow> string option \<Rightarrow> int option \<Rightarrow> string option \<Rightarrow>
   timestamp \<Rightarrow> db \<Rightarrow> inventory_movement \<times> db" where
  "insert_movement pid mt q rt rid n now s =
     (let row = \<lparr>mv_id = inventory_movements_id_seq s, mv_product_id = pid,
                 mv_movement_type = mt, mv_quantity = q, mv_reference_type = rt,
                 mv_reference_id = rid, mv_notes = n, mv_created_at = now\<rparr>
      in (row, s\<lparr>inventoryMovementsTable := inventoryMovementsTable s @ [row],
                inventory_movements_id_seq := inventory_movements_id_seq s + 1\<rparr>))"

text \<open>
  \<^verbatim>\<open>update(productsTable).set({stock_quantity: f(stock_quantity), updated_at: NOW()})
  .where(eq(productsTable.id, pid))\<close>: no row is written when the key is absent.
\<close>

definition update_stock :: "int \<Rightarrow> (int \<Rightarrow> int) \<Rightarrow> timestamp \<Rightarrow> db \<Rightarrow> db" where
  "update_stock pid f now s =
     (case productsTable s pid of
        None \<Rightarrow> s
      | Some p \<Rightarrow>
          s\<lparr>productsTable := (productsTable s)
               (pid \<mapsto> p\<lparr>stock_quantity := f (stock_quantity p), product_updated_at := now\<rparr>)\<rparr>)"

subsection \<open>\<^verbatim>\<open>create_inventory_movement.ts\<close>\<close>

definition stockChange :: "movement_type \<Rightarrow> int \<Rightarrow> int" where
  "stockChange mt q = (case mt of In \<Rightarrow> q | Out \<Rightarrow> - \<bar>q\<bar> | Adjustment \<Rightarrow> q)"

definition createInventoryMovement_body ::
  "CreateInventoryMovementInput \<Rightarrow> timestamp \<Rightarrow> db \<Rightarrow> (error + inventory_movement) \<times> db" where
  "createInventoryMovement_body input now s =
     (case productsTable s (cim_product_id input) of
        None \<Rightarrow> (Inl (ProductNotFound (cim_product_id input)), s)
      | Some product \<Rightarrow>
          (let currentStock = stock_quantity product;
               change = stockChange (cim_movement_type input) (cim_quantity input);
               newStock = currentStock + change
           in if newStock < 0 then (Inl (InsufficientStock currentStock \<bar>change\<bar>), s)
              else
                (let (row, s1) =
                       insert_movement (cim_product_id input) (cim_movement_type input)
                         (cim_quantity input) (cim_reference_type input)
                         (cim_reference_id input) (cim_notes input) now s;
                     s2 = update_stock (cim_product_id input) (\<lambda>_. newStock) now s1
                 in (Inr row, s2))))"

definition createInventoryMovement ::
  "CreateInventoryMovementInput \<Rightarrow> timestamp \<Rightarrow> db \<Rightarrow> (error + inventory_movement) \<times> db" where
  "createInventoryMovement input now = db_transaction (createInventoryMovement_body input now)"

text \<open>\<^verbatim>\<open>adjustInventory(productId, quantity, notes?)\<close>; \<^verbatim>\<open>notes || null\<close> turns a missing or
  empty note into \<^verbatim>\<open>null\<close>.\<close>

definition adjustInventory ::
  "int \<Rightarrow> int \<Rightarrow> string option \<Rightarrow> timestamp \<Rightarrow> db \<Rightarrow> (error + inventory_movement) \<times> db" where
  "adjustInventory productId quantity notes now =
     createInventoryMovement
       \<lparr>cim_product_id = productId, cim_movement_type = Adjustment, cim_quantity = quantity,
        cim_reference_type = Some ''manual'', cim_reference_id = None,
        cim_notes = (case notes of None \<Rightarrow> None | Some n \<Rightarrow> if n = [] then None else Some n)\<rparr>
       now"

subsection \<open>Template strings\<close>

text \<open>The decimal text of an id, as a template string \<^verbatim>\<open>${id}\<close> prints it.\<close>

function string_of_nat :: "nat \<Rightarrow> string" where
  "string_of_nat n =
     (if n < 10 then [char_of (48 + n)]
      else string_of_nat (n div 10) @ [char_of (48 + n mod 10)])"
  by pat_completeness auto
termination
  by (relation "measure (\<lambda>n. n)") auto

declare string_of_nat.simps [simp del]

definition string_of_int :: "int \<Rightarrow> string" where
  "string_of_int i = (if i < 0 then CHR ''-'' # string_of_nat (nat (- i)) else string_of_nat (nat i))"

text \<open>The notes the handlers write on the ledger entries of a transaction.\<close>

definition sale_note :: "int \<Rightarrow> string" where
  "sale_note transactionId = ''Sale via transaction #'' @ string_of_int transactionId"

definition cancellation_note :: "int \<Rightarrow> string" where
  "cancellation_note transactionId =
     ''Stock restored from cancelled transaction '' @ string_of_int transactionId"

definition completion_note :: "int \<Rightarrow> string" where
  "completion_note transactionId =
     ''Stock reduced for completed transaction '' @ string_of_int transactionId"

subsection \<open>\<^verbatim>\<open>create_transaction.ts\<close>\<close>

text \<open>The body of the loop \<^verbatim>\<open>for (const item of input.items)\<close>, then the loop. A throw
  leaves the loop with the database as the statements before it wrote it.\<close>

fun createTransaction_items ::
  "transaction_row \<Rightarrow> timestamp \<Rightarrow> create_item list \<Rightarrow> db \<Rightarrow> (error + unit) \<times> db" where
  "createTransaction_items transaction now [] s = (Inr (), s)"
| "createTransaction_items transaction now (item # items) s =
     (case productsTable s (ci_product_id item) of
        None \<Rightarrow> (Inl (ProductNotFound (ci_product_id item)), s)
      | Some product \<Rightarrow>
          if stock_quantity product < ci_quantity item
          then (Inl (InsufficientStock (stock_quantity product) (ci_quantity item)), s)
          else
            (let totalPrice = ci_unit_price item * of_int (ci_quantity item);
                 s1 = s\<lparr>transactionItemsTable := transactionItemsTable s @
                          [\<lparr>item_id = transaction_items_id_seq s,
                            item_transaction_id = tx_id transaction,
                            item_product_id = ci_product_id item,
                            item_quantity = ci_quantity item,
                            item_unit_price = ci_unit_price item,
                            item_total_price = totalPrice,
                            item_created_at = now\<rparr>],
                        transaction_items_id_seq := transaction_items_id_seq s + 1\<rparr>;
                 newStockQuantity = stock_quantity product - ci_quantity item;
                 s2 = update_stock (ci_product_id item) (\<lambda>_. newStockQuantity) now s1;
                 (row, s3) =
                   insert_movement (ci_product_id item) Out (- ci_quantity item)
                     (Some ''transaction'') (Some (tx_id transaction))
                     (Some (sale_note (tx_id transaction)))
                     now s2
             in createTransaction_items transaction now items s3))"

definition createTransaction_body ::
  "CreateTransactionInput \<Rightarrow> timestamp \<Rightarrow> db \<Rightarrow> (error + transaction_row) \<times> db" where
  "createTransaction_body input now s =
     (let finalAmount = cti_total_amount input - cti_discount_amount input;
          transaction =
            \<lparr>tx_id = transactions_id_seq s,
             tx_customer_id = cti_customer_id input,
             tx_user_id = cti_user_id input,
             tx_total_amount = cti_total_amount input,
             tx_discount_amount = cti_discount_amount input,
             tx_final_amount = finalAmount,
             tx_status = Completed,
             tx_payment_method = cti_payment_method input,
             tx_notes = cti_notes input,
             tx_created_at = now,
             tx_updated_at = now\<rparr>;
          s0 = s\<lparr>transactionsTable := (transactionsTable s)(tx_id transaction \<mapsto> transaction),
                 transactions_id_seq := transactions_id_seq s + 1\<rparr>
      in case createTransaction_items transaction now (cti_items input) s0 of
           (Inl e, s1) \<Rightarrow> (Inl e, s1)
         | (Inr u, s1) \<Rightarrow> (Inr transaction, s1))"

definition createTransaction ::
  "CreateTransactionInput \<Rightarrow> timestamp \<Rightarrow> db \<Rightarrow> (error + transaction_row) \<times> db" where
  "createTransaction input now = db_transaction (createTransaction_body input now)"

subsection \<open>\<^verbatim>\<open>update_transaction.ts\<close>\<close>

text \<open>
  Neither \<^verbatim>\<open>updateTransaction\<close> nor \<^verbatim>\<open>handleStatusChange\<close> opens a transaction: each
  statement goes to \<^verbatim>\<open>db\<close> and is kept as soon as it has run. The two loops of
  \<^verbatim>\<open>handleStatusChange\<close> follow; the first cannot throw.
\<close>

fun restore_items :: "int \<Rightarrow> timestamp \<Rightarrow> transaction_item list \<Rightarrow> db \<Rightarrow> db" where
  "restore_items transactionId now [] s = s"
| "restore_items transactionId now (item # items) s =
     (let s1 = update_stock (item_product_id item) (\<lambda>q. q + item_quantity item) now s;
          (row, s2) =
            insert_movement (item_product_id item) In (item_quantity item)
              (Some ''transaction_cancellation'') (Some transactionId)
              (Some (cancellation_note transactionId))
              now s1
      in restore_items transactionId now items s2)"

fun reduce_items ::
  "int \<Rightarrow> timestamp \<Rightarrow> transaction_item list \<Rightarrow> db \<Rightarrow> (error + unit) \<times> db" where
  "reduce_items transactionId now [] s = (Inr (), s)"
| "reduce_items transactionId now (item # items) s =
     (case productsTable s (item_product_id item) of
        None \<Rightarrow> (Inl (ProductNotFound (item_product_id item)), s)
      | Some product \<Rightarrow>
          if stock_quantity product < item_quantity item
          then (Inl (InsufficientStock (stock_quantity product) (item_quantity item)), s)
          else
            (let s1 = update_stock (item_product_id item) (\<lambda>q. q - item_quantity item) now s;
                 (row, s2) =
                   insert_movement (item_product_id item) Out (item_quantity item)
                     (Some ''transaction_completion'') (Some transactionId)
                     (Some (completion_note transactionId))
                     now s1
             in reduce_items transactionId now items s2))"

definition handleStatusChange ::
  "int \<Rightarrow> transaction_status \<Rightarrow> transaction_status \<Rightarrow> timestamp \<Rightarrow> db \<Rightarrow> (error + unit) \<times> db" where
  "handleStatusChange transactionId currentStatus newStatus now s =
     (if currentStatus = newStatus then (Inr (), s)
      else
        (let items = filter (\<lambda>i. item_transaction_id i = transactionId) (transactionItemsTable s)
         in if items = [] then (Inr (), s)
            else
              (let s1 = (if currentStatus = Completed \<and> newStatus = Cancelled
                         then restore_items transactionId now items s else s)
               in if currentStatus = Cancelled \<and> newStatus = Completed
                  then reduce_items transactionId now items s1
                  else (Inr (), s1))))"

text \<open>The object \<^verbatim>\<open>updateData\<close> applied to the stored row by
  \<^verbatim>\<open>update(transactionsTable).set(updateData)\<close>: a column it does not name is kept.\<close>

definition updateData ::
  "UpdateTransactionInput \<Rightarrow> money \<Rightarrow> timestamp \<Rightarrow> transaction_row \<Rightarrow> transaction_row" where
  "updateData input final_amount now row =
     (let r0 = row\<lparr>tx_updated_at := now\<rparr>;
          r1 = (case ut_customer_id input of None \<Rightarrow> r0 | Some v \<Rightarrow> r0\<lparr>tx_customer_id := v\<rparr>);
          r2 = (case ut_total_amount input of None \<Rightarrow> r1 | Some v \<Rightarrow> r1\<lparr>tx_total_amount := v\<rparr>);
          r3 = (case ut_discount_amount input of None \<Rightarrow> r2 | Some v \<Rightarrow> r2\<lparr>tx_discount_amount := v\<rparr>);
          r4 = (case ut_status input of None \<Rightarrow> r3 | Some v \<Rightarrow> r3\<lparr>tx_status := v\<rparr>);
          r5 = (case ut_payment_method input of None \<Rightarrow> r4 | Some v \<Rightarrow> r4\<lparr>tx_payment_method := v\<rparr>);
          r6 = (case ut_notes input of None \<Rightarrow> r5 | Some v \<Rightarrow> r5\<lparr>tx_notes := v\<rparr>)
      in if defined (ut_total_amount input) \<or> defined (ut_discount_amount input)
         then r6\<lparr>tx_final_amount := final_amount\<rparr> else r6)"

text \<open>\<^verbatim>\<open>result[0]\<close> of an update that matched no row is \<^verbatim>\<open>undefined\<close>, and reading
  a field of it throws a \<^verbatim>\<open>TypeError\<close>.\<close>

definition updateTransaction ::
  "UpdateTransactionInput \<Rightarrow> timestamp \<Rightarrow> db \<Rightarrow> (error + transaction_row) \<times> db" where
  "updateTransaction input now s =
     (case transactionsTable s (ut_id input) of
        None \<Rightarrow> (Inl (TransactionNotFound (ut_id input)), s)
      | Some current \<Rightarrow>
          (let currentStatus = tx_status current;
               newStatus = (case ut_status input of Some st \<Rightarrow> st | None \<Rightarrow> currentStatus)
           in case (if defined (ut_status input) \<and> ut_status input \<noteq> Some currentStatus
                    then handleStatusChange (ut_id input) currentStatus newStatus now s
                    else (Inr (), s)) of
                (Inl e, s1) \<Rightarrow> (Inl e, s1)
              | (Inr u, s1) \<Rightarrow>
                  (let final_amount =
                         (if defined (ut_total_amount input) \<or> defined (ut_discount_amount input)
                          then (case ut_total_amount input of
                                  Some t \<Rightarrow> t | None \<Rightarrow> tx_total_amount current)
                               - (case ut_discount_amount input of
                                    Some d \<Rightarrow> d | None \<Rightarrow> tx_discount_amount current)
                          else tx_final_amount current)
                   in case transactionsTable s1 (ut_id input) of
                        None \<Rightarrow> (Inl TypeError, s1)
                      | Some row \<Rightarrow>
                          (let transaction = updateData input final_amount now row
                           in (Inr transaction,
                               s1\<lparr>transactionsTable :=
                                    (transactionsTable s1)(ut_id input \<mapsto> transaction)\<rparr>)))))"

section \<open>Vocabulary of the properties\<close>

text \<open>
  The two steps of \<open>updateTransaction\<close> before its write, named so that the properties
  can speak of them: the status change it runs, and the \<^verbatim>\<open>final_amount\<close> it computes.
  Lemma \<open>updateTransaction_found\<close> below relates them to the handler.
\<close>

definition status_step ::
  "UpdateTransactionInput \<Rightarrow> transaction_row \<Rightarrow> timestamp \<Rightarrow> db \<Rightarrow> (error + unit) \<times> db" where
  "status_step input current now s =
     (if defined (ut_status input) \<and> ut_status input \<noteq> Some (tx_status current)
      then handleStatusChange (ut_id input) (tx_status current)
             (case ut_status input of Some st \<Rightarrow> st | None \<Rightarrow> tx_status current) now s
      else (Inr (), s))"

definition new_final_amount :: "UpdateTransactionInput \<Rightarrow> transaction_row \<Rightarrow> money" where
  "new_final_amount input current =
     (if defined (ut_total_amount input) \<or> defined (ut_discount_amount input)
      then (case ut_total_amount input of Some t \<Rightarrow> t | None \<Rightarrow> tx_total_amount current)
           - (case ut_discount_amount input of Some d \<Rightarrow> d | None \<Rightarrow> tx_discount_amount current)
      else tx_final_amount current)"

text \<open>
  What the columns can hold. An \<^verbatim>\<open>integer\<close> column holds a 32-bit signed integer, a
  \<^verbatim>\<open>text\<close> column a string without the character of code 0, and a \<^verbatim>\<open>numeric(10,2)\<close>
  column stores without rounding an amount of at most two decimals of absolute value
  below \<open>10^8\<close>. \<open>fits_columns\<close> says that the row \<^verbatim>\<open>createInventoryMovement\<close> inserts
  for an input fits the columns of \<^verbatim>\<open>inventory_movements\<close>; \<open>money_value\<close> is a money
  value of the data model: not negative and stored by the column as it is.
\<close>

definition int4 :: "int \<Rightarrow> bool" where
  "int4 i = (- 2147483648 \<le> i \<and> i \<le> 2147483647)"

definition pg_text :: "string option \<Rightarrow> bool" where
  "pg_text x = (case x of None \<Rightarrow> True | Some str \<Rightarrow> CHR 0x00 \<notin> set str)"

definition fits_columns :: "CreateInventoryMovementInput \<Rightarrow> bool" where
  "fits_columns input =
     (int4 (cim_product_id input) \<and> int4 (cim_quantity input)
      \<and> (case cim_reference_id input of None \<Rightarrow> True | Some r \<Rightarrow> int4 r)
      \<and> pg_text (cim_reference_type input) \<and> pg_text (cim_notes input))"

definition fits_numeric_10_2 :: "money \<Rightarrow> bool" where
  "fits_numeric_10_2 v = (of_int \<lfloor>v * 100\<rfloor> = v * 100 \<and> \<bar>v\<bar> < 100000000)"

definition money_value :: "money \<Rightarrow> bool" where
  "money_value v = (0 \<le> v \<and> fits_numeric_10_2 v)"

text \<open>The stock of a product, if it exists; the quantity that a list of line items holds
  of a product; and the columns of a ledger entry that do not depend on the key or the
  time of its insertion.\<close>

definition stock_of :: "db \<Rightarrow> int \<Rightarrow> int option" where
  "stock_of s pid = map_option stock_quantity (productsTable s pid)"

definition item_total :: "int \<Rightarrow> transaction_item list \<Rightarrow> int" where
  "item_total pid items =
     sum_list (map item_quantity (filter (\<lambda>i. item_product_id i = pid) items))"

definition ledger_key ::
  "inventory_movement \<Rightarrow> int \<times> movement_type \<times> int \<times> string option \<times> int option" where
  "ledger_key m =
     (mv_product_id m, mv_movement_type m, mv_quantity m, mv_reference_type m, mv_reference_id m)"

text \<open>The invariant of the data model: no product has a negative stock.\<close>

definition stock_nonneg :: "db \<Rightarrow> bool" where
  "stock_nonneg s = (\<forall>pid p. productsTable s pid = Some p \<longrightarrow> 0 \<le> stock_quantity p)"

section \<open>Example databases\<close>

text \<open>
  The database that \<^verbatim>\<open>createTestData\<close> of the tests of \<^verbatim>\<open>updateTransaction\<close> builds:
  two products, and one transaction with one line item of quantity 1 on each. The
  transaction's status and the two stock quantities are parameters.
\<close>

definition test_db :: "transaction_status \<Rightarrow> int \<Rightarrow> int \<Rightarrow> db" where
  "test_db st q1 q2 =
     \<lparr>productsTable =
        [1 \<mapsto> \<lparr>stock_quantity = q1, product_updated_at = 0\<rparr>,
         2 \<mapsto> \<lparr>stock_quantity = q2, product_updated_at = 0\<rparr>],
      transactionsTable =
        [1 \<mapsto> \<lparr>tx_id = 1, tx_customer_id = Some 1, tx_user_id = 1,
                tx_total_amount = 5998 / 100, tx_discount_amount = 5,
                tx_final_amount = 5498 / 100, tx_status = st,
                tx_payment_method = Some ''cash'', tx_notes = Some ''Test transaction'',
                tx_created_at = 0, tx_updated_at = 0\<rparr>],
      transactionItemsTable =
        [\<lparr>item_id = 1, item_transaction_id = 1, item_product_id = 1, item_quantity = 1,
          item_unit_price = 1999 / 100, item_total_price = 1999 / 100, item_created_at = 0\<rparr>,
         \<lparr>item_id = 2, item_transaction_id = 1, item_product_id = 2, item_quantity = 1,
          item_unit_price = 2999 / 100, item_total_price = 2999 / 100, item_created_at = 0\<rparr>],
      inventoryMovementsTable = [],
      transactions_id_seq = 2,
      transaction_items_id_seq = 3,
      inventory_movements_id_seq = 1\<rparr>"

text \<open>A movement on product 1, as the tests of \<^verbatim>\<open>createInventoryMovement\<close> build it.\<close>

definition movement_input :: "movement_type \<Rightarrow> int \<Rightarrow> CreateInventoryMovementInput" where
  "movement_input mt q =
     \<lparr>cim_product_id = 1, cim_movement_type = mt, cim_quantity = q,
      cim_reference_type = Some ''sale'', cim_reference_id = None, cim_notes = None\<rparr>"

text \<open>A patch of transaction 1 that sets only the status; and the patch of the test
  \<^verbatim>\<open>should update basic transaction fields\<close>.\<close>

definition status_input :: "transaction_status \<Rightarrow> UpdateTransactionInput" where
  "status_input st =
     \<lparr>ut_id = 1, ut_customer_id = None, ut_total_amount = None, ut_discount_amount = None,
      ut_status = Some st, ut_payment_method = None, ut_notes = None\<rparr>"

definition basic_update :: UpdateTransactionInput where
  "basic_update =
     \<lparr>ut_id = 1, ut_customer_id = None, ut_total_amount = None, ut_discount_amount = Some 10,
      ut_status = None, ut_payment_method = Some (Some ''credit_card''),
      ut_notes = Some (Some ''Updated notes'')\<rparr>"

text \<open>A sale of \<open>n1\<close> units of product 1 and \<open>n2\<close> units of product 2.\<close>

definition sale_input :: "int \<Rightarrow> int \<Rightarrow> CreateTransactionInput" where
  "sale_input n1 n2 =
     \<lparr>cti_customer_id = Some 1, cti_user_id = 1, cti_total_amount = 6997 / 100,
      cti_discount_amount = 0, cti_payment_method = Some ''cash'', cti_notes = None,
      cti_items =
        [\<lparr>ci_product_id = 1, ci_quantity = n1, ci_unit_price = 1999 / 100\<rparr>,
         \<lparr>ci_product_id = 2, ci_quantity = n2, ci_unit_price = 2999 / 100\<rparr>]\<rparr>"

text \<open>
  A shop with one product at stock 10, and a sale of two line items of 3 units of that
  product each. The databases that follow are built by the handlers themselves: the sale
  is created at time 1, cancelled at time 2, and a movement of 5 units out is recorded
  at time 3.
\<close>

definition shop_db :: db where
  "shop_db =
     \<lparr>productsTable = [1 \<mapsto> \<lparr>stock_quantity = 10, product_updated_at = 0\<rparr>],
      transactionsTable = Map.empty,
      transactionItemsTable = [],
      inventoryMovementsTable = [],
      transactions_id_seq = 1,
      transaction_items_id_seq = 1,
      inventory_movements_id_seq = 1\<rparr>"

definition double_sale :: CreateTransactionInput where
  "double_sale =
     \<lparr>cti_customer_id = None, cti_user_id = 1, cti_total_amount = 60,
      cti_discount_amount = 0, cti_payment_method = None, cti_notes = None,
      cti_items =
        [\<lparr>ci_product_id = 1, ci_quantity = 3, ci_unit_price = 10\<rparr>,
         \<lparr>ci_product_id = 1, ci_quantity = 3, ci_unit_price = 10\<rparr>]\<rparr>"

definition sold_db :: db where
  "sold_db = snd (createTransaction double_sale 1 shop_db)"

definition cancelled_db :: db where
  "cancelled_db = snd (updateTransaction (status_input Cancelled) 2 sold_db)"

definition depleted_db :: db where
  "depleted_db = snd (createInventoryMovement (movement_input Out 5) 3 cancelled_db)"

section \<open>Properties\<close>

lemma defined_simps [simp]: "defined None = False" "defined (Some x) = True"
  by (simp_all add: defined_def)

subsection \<open>Recording one movement\<close>

lemma rollback_same: "rollback s s = s"
  by (simp add: rollback_def)

lemma createInventoryMovement_missing:
  assumes "productsTable s (cim_product_id input) = None"
  shows "createInventoryMovement input now s = (Inl (ProductNotFound (cim_product_id input)), s)"
  using assms
  by (simp add: createInventoryMovement_def db_transaction_def createInventoryMovement_body_def
      rollback_same)

lemma createInventoryMovement_found:
  assumes "productsTable s (cim_product_id input) = Some p"
  shows "createInventoryMovement input now s =
     (let change = stockChange (cim_movement_type input) (cim_quantity input);
          newStock = stock_quantity p + change
      in if newStock < 0 then (Inl (InsufficientStock (stock_quantity p) \<bar>change\<bar>), s)
         else
           (let row = \<lparr>mv_id = inventory_movements_id_seq s,
                       mv_product_id = cim_product_id input,
                       mv_movement_type = cim_movement_type input,
                       mv_quantity = cim_quantity input,
                       mv_reference_type = cim_reference_type input,
                       mv_reference_id = cim_reference_id input,
                       mv_notes = cim_notes input, mv_created_at = now\<rparr>
            in (Inr row,
                s\<lparr>inventoryMovementsTable := inventoryMovementsTable s @ [row],
                  inventory_movements_id_seq := inventory_movements_id_seq s + 1,
                  productsTable := (productsTable s)
                    (cim_product_id input \<mapsto>
                       p\<lparr>stock_quantity := newStock, product_updated_at := now\<rparr>)\<rparr>)))"
  using assms
  by (simp add: createInventoryMovement_def db_transaction_def createInventoryMovement_body_def
      insert_movement_def update_stock_def Let_def rollback_same)

lemmas cim_defs = createInventoryMovement_def db_transaction_def
  createInventoryMovement_body_def insert_movement_def update_stock_def Let_def
  stockChange_def rollback_def

text \<open>
  C3, as the spec states it: the \<^verbatim>\<open>quantity\<close> of the persisted ledger entry is the signed
  delta applied to \<^verbatim>\<open>stock_quantity\<close>, negative for an \<^verbatim>\<open>out\<close> movement. It fails on an
  \<^verbatim>\<open>out\<close> movement of 30 at stock 100: the entry stores 30 and the stock falls by 30.
\<close>

theorem stored_quantity_is_not_the_delta:
  "fst (createInventoryMovement (movement_input Out 30) 7 (test_db Pending 100 50)) =
     Inr \<lparr>mv_id = 1, mv_product_id = 1, mv_movement_type = Out, mv_quantity = 30,
          mv_reference_type = Some ''sale'', mv_reference_id = None, mv_notes = None,
          mv_created_at = 7\<rparr>
   \<and> map_option stock_quantity
        (productsTable
           (snd (createInventoryMovement (movement_input Out 30) 7 (test_db Pending 100 50))) 1)
       = Some (100 - 30)"
  by (simp add: cim_defs test_db_def movement_input_def)

text \<open>
  C3, amended: a successful \<^verbatim>\<open>createInventoryMovement\<close> appends one ledger entry whose
  \<^verbatim>\<open>quantity\<close> is the input's quantity as given, while the delta applied to
  \<^verbatim>\<open>stock_quantity\<close> is the quantity for \<^verbatim>\<open>in\<close> and \<^verbatim>\<open>adjustment\<close> and minus its
  absolute value for \<^verbatim>\<open>out\<close>.
\<close>

theorem stored_quantity_is_the_input_quantity:
  assumes "createInventoryMovement input now s = (Inr row, s')"
    and "productsTable s (cim_product_id input) = Some p"
  shows "mv_quantity row = cim_quantity input
       \<and> inventoryMovementsTable s' = inventoryMovementsTable s @ [row]
       \<and> (\<exists>p'. productsTable s' (cim_product_id input) = Some p'
             \<and> stock_quantity p' - stock_quantity p =
                 (case cim_movement_type input of
                    In \<Rightarrow> cim_quantity input
                  | Out \<Rightarrow> - \<bar>cim_quantity input\<bar>
                  | Adjustment \<Rightarrow> cim_quantity input))"
  using assms(1) unfolding createInventoryMovement_found [OF assms(2)]
  by (auto simp: Let_def stockChange_def split: if_splits)

theorem stored_quantity_is_the_input_quantity_witness:
  "createInventoryMovement (movement_input Out 30) 7 (test_db Pending 100 50) =
     (Inr \<lparr>mv_id = 1, mv_product_id = 1, mv_movement_type = Out, mv_quantity = 30,
          mv_reference_type = Some ''sale'', mv_reference_id = None, mv_notes = None,
          mv_created_at = 7\<rparr>,
      snd (createInventoryMovement (movement_input Out 30) 7 (test_db Pending 100 50)))
   \<and> (\<exists>p'. productsTable
               (snd (createInventoryMovement (movement_input Out 30) 7 (test_db Pending 100 50))) 1
             = Some p'
          \<and> stock_quantity p' - 100 = - 30)"
proof -
  let ?r = "createInventoryMovement (movement_input Out 30) 7 (test_db Pending 100 50)"
  let ?row = "\<lparr>mv_id = 1, mv_product_id = 1, mv_movement_type = Out, mv_quantity = 30,
          mv_reference_type = Some ''sale'', mv_reference_id = None, mv_notes = None,
          mv_created_at = 7\<rparr>"
  have h1: "?r = (Inr ?row, snd ?r)"
    by (simp add: cim_defs test_db_def movement_input_def)
  have h2: "productsTable (test_db Pending 100 50) (cim_product_id (movement_input Out 30))
              = Some \<lparr>stock_quantity = 100, product_updated_at = 0\<rparr>"
    by (simp add: test_db_def movement_input_def)
  from stored_quantity_is_the_input_quantity [OF h1 h2] h1 show ?thesis
    by (simp add: movement_input_def)
qed

text \<open>
  C4, as the spec states it: for \<^verbatim>\<open>in\<close> the delta is the quantity, a negative quantity
  being rejected or normalized. It fails on an \<^verbatim>\<open>in\<close> movement of \<open>-5\<close> at stock 100: the
  call succeeds (it is not rejected) and the stock becomes 95 (it is not normalized to
  \<open>+5\<close>, which would give 105).
\<close>

theorem negative_in_is_applied_as_given:
  "fst (createInventoryMovement (movement_input In (- 5)) 7 (test_db Pending 100 50)) =
     Inr \<lparr>mv_id = 1, mv_product_id = 1, mv_movement_type = In, mv_quantity = - 5,
          mv_reference_type = Some ''sale'', mv_reference_id = None, mv_notes = None,
          mv_created_at = 7\<rparr>
   \<and> map_option stock_quantity
        (productsTable
           (snd (createInventoryMovement (movement_input In (- 5)) 7 (test_db Pending 100 50))) 1)
       = Some 95"
  by (simp add: cim_defs test_db_def movement_input_def)

text \<open>
  C4, amended: on an existing product (its id a 32-bit integer) the delta is the
  quantity as given for \<^verbatim>\<open>in\<close> (whatever its sign) and for \<^verbatim>\<open>adjustment\<close>, and minus the
  absolute value of the quantity for \<^verbatim>\<open>out\<close>. If the current stock plus the delta is
  negative the call fails with the insufficient-stock error and leaves the database as
  it was. Otherwise, provided what it writes fits the columns -- the inserted row and its
  key, and a new stock of at most 2147483647 --, it succeeds and \<^verbatim>\<open>stock_quantity\<close>
  becomes the current stock plus the delta. (Beyond these ranges the database refuses
  the write; see the conventions.)
\<close>

theorem createInventoryMovement_delta:
  assumes "productsTable s (cim_product_id input) = Some p"
    and "int4 (cim_product_id input)"
    and "delta = (case cim_movement_type input of
                    In \<Rightarrow> cim_quantity input
                  | Out \<Rightarrow> - \<bar>cim_quantity input\<bar>
                  | Adjustment \<Rightarrow> cim_quantity input)"
  shows "if stock_quantity p + delta < 0
         then createInventoryMovement input now s =
                (Inl (InsufficientStock (stock_quantity p) \<bar>delta\<bar>), s)
         else (fits_columns input \<and> int4 (inventory_movements_id_seq s)
               \<and> stock_quantity p + delta \<le> 2147483647
               \<longrightarrow> (\<exists>row. fst (createInventoryMovement input now s) = Inr row)
                 \<and> map_option stock_quantity
                      (productsTable (snd (createInventoryMovement input now s))
                         (cim_product_id input))
                    = Some (stock_quantity p + delta)
                 \<and> int4 (stock_quantity p + delta))"
  unfolding createInventoryMovement_found [OF assms(1)] assms(3)
  by (simp add: Let_def stockChange_def int4_def)

theorem createInventoryMovement_delta_witness:
  "createInventoryMovement (movement_input Out 200) 7 (test_db Pending 70 50) =
     (Inl (InsufficientStock 70 200), test_db Pending 70 50)
   \<and> map_option stock_quantity
        (productsTable
           (snd (createInventoryMovement (movement_input Adjustment (- 15)) 7
                  (test_db Pending 70 50))) 1)
       = Some 55"
proof -
  have h: "productsTable (test_db Pending 70 50) (cim_product_id (movement_input mt q))
              = Some \<lparr>stock_quantity = 70, product_updated_at = 0\<rparr>" for mt q
    by (simp add: test_db_def movement_input_def)
  have r: "int4 (cim_product_id (movement_input mt q))" for mt q
    by (simp add: movement_input_def int4_def)
  have d1: "(- 200 :: int) =
      (case cim_movement_type (movement_input Out 200) of
         In \<Rightarrow> cim_quantity (movement_input Out 200)
       | Out \<Rightarrow> - \<bar>cim_quantity (movement_input Out 200)\<bar>
       | Adjustment \<Rightarrow> cim_quantity (movement_input Out 200))"
    by (simp add: movement_input_def)
  have d2: "(- 15 :: int) =
      (case cim_movement_type (movement_input Adjustment (- 15)) of
         In \<Rightarrow> cim_quantity (movement_input Adjustment (- 15))
       | Out \<Rightarrow> - \<bar>cim_quantity (movement_input Adjustment (- 15))\<bar>
       | Adjustment \<Rightarrow> cim_quantity (movement_input Adjustment (- 15)))"
    by (simp add: movement_input_def)
  have f: "fits_columns (movement_input Adjustment (- 15))
           \<and> int4 (inventory_movements_id_seq (test_db Pending 70 50))"
    by (simp add: fits_columns_def pg_text_def int4_def movement_input_def test_db_def)
  from createInventoryMovement_delta [OF h r d1, of 7]
       createInventoryMovement_delta [OF h r d2, of 7] f
  show ?thesis
    by (simp add: movement_input_def)
qed




subsection \<open>The loops, one iteration at a time\<close>

lemma insert_movement_frame [simp]:
  "productsTable (snd (insert_movement pid mt q rt rid n now s)) = productsTable s"
  "transactionsTable (snd (insert_movement pid mt q rt rid n now s)) = transactionsTable s"
  "transactionItemsTable (snd (insert_movement pid mt q rt rid n now s)) = transactionItemsTable s"
  by (simp_all add: insert_movement_def Let_def)

lemma movements_insert_movement [simp]:
  "inventoryMovementsTable (snd (insert_movement pid mt q rt rid n now s)) =
     inventoryMovementsTable s @ [fst (insert_movement pid mt q rt rid n now s)]"
  by (simp add: insert_movement_def Let_def)

lemma ledger_key_insert_movement [simp]:
  "ledger_key (fst (insert_movement pid mt q rt rid n now s)) = (pid, mt, q, rt, rid)"
  by (simp add: insert_movement_def Let_def ledger_key_def)

lemma update_stock_frame [simp]:
  "transactionsTable (update_stock pid f now s) = transactionsTable s"
  "transactionItemsTable (update_stock pid f now s) = transactionItemsTable s"
  "inventoryMovementsTable (update_stock pid f now s) = inventoryMovementsTable s"
  by (simp_all add: update_stock_def split: option.split)

lemma createTransaction_items_Cons:
  "createTransaction_items transaction now (item # items) s =
     (case productsTable s (ci_product_id item) of
        None \<Rightarrow> (Inl (ProductNotFound (ci_product_id item)), s)
      | Some product \<Rightarrow>
          if stock_quantity product < ci_quantity item
          then (Inl (InsufficientStock (stock_quantity product) (ci_quantity item)), s)
          else createTransaction_items transaction now items
                 (snd (insert_movement (ci_product_id item) Out (- ci_quantity item)
                         (Some ''transaction'') (Some (tx_id transaction))
                         (Some (sale_note (tx_id transaction))) now
                         (update_stock (ci_product_id item)
                            (\<lambda>_. stock_quantity product - ci_quantity item) now
                            (s\<lparr>transactionItemsTable := transactionItemsTable s @
                                 [\<lparr>item_id = transaction_items_id_seq s,
                                   item_transaction_id = tx_id transaction,
                                   item_product_id = ci_product_id item,
                                   item_quantity = ci_quantity item,
                                   item_unit_price = ci_unit_price item,
                                   item_total_price =
                                     ci_unit_price item * of_int (ci_quantity item),
                                   item_created_at = now\<rparr>],
                               transaction_items_id_seq := transaction_items_id_seq s + 1\<rparr>)))))"
  by (simp add: Let_def case_prod_beta split: option.split)

lemma restore_items_Cons:
  "restore_items tid now (item # items) s =
     restore_items tid now items
       (snd (insert_movement (item_product_id item) In (item_quantity item)
               (Some ''transaction_cancellation'') (Some tid)
               (Some (cancellation_note tid)) now
               (update_stock (item_product_id item) (\<lambda>q. q + item_quantity item) now s)))"
  by (simp add: Let_def case_prod_beta)

lemma reduce_items_Cons:
  "reduce_items tid now (item # items) s =
     (case productsTable s (item_product_id item) of
        None \<Rightarrow> (Inl (ProductNotFound (item_product_id item)), s)
      | Some product \<Rightarrow>
          if stock_quantity product < item_quantity item
          then (Inl (InsufficientStock (stock_quantity product) (item_quantity item)), s)
          else reduce_items tid now items
                 (snd (insert_movement (item_product_id item) Out (item_quantity item)
                         (Some ''transaction_completion'') (Some tid)
                         (Some (completion_note tid)) now
                         (update_stock (item_product_id item)
                            (\<lambda>q. q - item_quantity item) now s))))"
  by (simp add: Let_def case_prod_beta split: option.split)

declare createTransaction_items.simps(2) [simp del]
declare restore_items.simps(2) [simp del]
declare reduce_items.simps(2) [simp del]

lemmas ct_eval = createTransaction_def db_transaction_def createTransaction_body_def
  createTransaction_items_Cons update_stock_def insert_movement_def Let_def rollback_def

lemmas ut_eval = updateTransaction_def handleStatusChange_def reduce_items_Cons
  restore_items_Cons update_stock_def insert_movement_def Let_def updateData_def

subsection \<open>Creating a sale\<close>

lemma createTransaction_items_error:
  "createTransaction_items transaction now items s = (Inl e, s') \<Longrightarrow>
     (\<exists>pid. e = ProductNotFound pid)
     \<or> (\<exists>available required. e = InsufficientStock available required)"
  by (induction items arbitrary: s)
     (auto simp: createTransaction_items_Cons split: option.splits if_splits)

lemma createTransaction_body_error:
  assumes "createTransaction_body input now s = (Inl e, s')"
  shows "(\<exists>pid. e = ProductNotFound pid)
       \<or> (\<exists>available required. e = InsufficientStock available required)"
  using assms unfolding createTransaction_body_def Let_def
  by (auto split: prod.splits sum.splits dest!: createTransaction_items_error)

text \<open>
  C5: when \<^verbatim>\<open>createTransaction\<close> fails, which it does only because a product of an item
  is not found or its stock is insufficient, nothing persists: the tables of
  transactions, transaction items and inventory movements and every product row are as
  they were before the call, whatever the items before the failing one had written
  inside the transaction.
\<close>

theorem createTransaction_failure_persists_nothing:
  assumes "fst (createTransaction input now s) = Inl e"
  shows "transactionsTable (snd (createTransaction input now s)) = transactionsTable s
       \<and> transactionItemsTable (snd (createTransaction input now s)) = transactionItemsTable s
       \<and> inventoryMovementsTable (snd (createTransaction input now s))
           = inventoryMovementsTable s
       \<and> productsTable (snd (createTransaction input now s)) = productsTable s
       \<and> ((\<exists>pid. e = ProductNotFound pid)
           \<or> (\<exists>available required. e = InsufficientStock available required))"
proof -
  obtain r s1 where body: "createTransaction_body input now s = (r, s1)"
    by (cases "createTransaction_body input now s")
  from assms have r: "r = Inl e"
    unfolding createTransaction_def db_transaction_def body by (cases r) simp_all
  have state: "snd (createTransaction input now s) = rollback s s1"
    unfolding createTransaction_def db_transaction_def body r by simp
  have kind: "(\<exists>pid. e = ProductNotFound pid)
      \<or> (\<exists>available required. e = InsufficientStock available required)"
    using body unfolding r by (rule createTransaction_body_error)
  show ?thesis
    unfolding state using kind by (simp add: rollback_def)
qed

text \<open>The witness: a sale of two items whose second item fails. Before the rollback the
  body of the transaction had written a ledger entry for the first item.\<close>

theorem createTransaction_failure_persists_nothing_witness:
  "fst (createTransaction (sale_input 2 1) 9 (test_db Pending 100 0))
     = Inl (InsufficientStock 0 1)
   \<and> length (inventoryMovementsTable
                (snd (createTransaction_body (sale_input 2 1) 9 (test_db Pending 100 0)))) = 1
   \<and> transactionsTable (snd (createTransaction (sale_input 2 1) 9 (test_db Pending 100 0)))
       = transactionsTable (test_db Pending 100 0)
   \<and> transactionItemsTable (snd (createTransaction (sale_input 2 1) 9 (test_db Pending 100 0)))
       = transactionItemsTable (test_db Pending 100 0)
   \<and> inventoryMovementsTable (snd (createTransaction (sale_input 2 1) 9 (test_db Pending 100 0)))
       = []
   \<and> productsTable (snd (createTransaction (sale_input 2 1) 9 (test_db Pending 100 0)))
       = productsTable (test_db Pending 100 0)"
proof -
  have h: "fst (createTransaction (sale_input 2 1) 9 (test_db Pending 100 0))
             = Inl (InsufficientStock 0 1)"
    by (simp add: ct_eval test_db_def sale_input_def)
  have b: "length (inventoryMovementsTable
                (snd (createTransaction_body (sale_input 2 1) 9 (test_db Pending 100 0)))) = 1"
    by (simp add: ct_eval test_db_def sale_input_def)
  have m: "inventoryMovementsTable (test_db Pending 100 0) = []"
    by (simp add: test_db_def)
  from createTransaction_failure_persists_nothing [OF h] h b m show ?thesis
    by simp
qed

subsection \<open>Updating a transaction\<close>

lemma restore_items_frame [simp]:
  "transactionsTable (restore_items tid now items s) = transactionsTable s"
  "transactionItemsTable (restore_items tid now items s) = transactionItemsTable s"
  by (induction items arbitrary: s) (simp_all add: restore_items_Cons)

lemma reduce_items_frame [simp]:
  "transactionsTable (snd (reduce_items tid now items s)) = transactionsTable s"
  "transactionItemsTable (snd (reduce_items tid now items s)) = transactionItemsTable s"
  by (induction items arbitrary: s) (simp_all add: reduce_items_Cons split: option.split)

lemma handleStatusChange_frame [simp]:
  "transactionsTable (snd (handleStatusChange tid cur new now s)) = transactionsTable s"
  "transactionItemsTable (snd (handleStatusChange tid cur new now s)) = transactionItemsTable s"
  by (simp_all add: handleStatusChange_def Let_def)

lemma handleStatusChange_other:
  assumes "\<not> (cur = Completed \<and> new = Cancelled)" and "\<not> (cur = Cancelled \<and> new = Completed)"
  shows "handleStatusChange tid cur new now s = (Inr (), s)"
  using assms by (auto simp: handleStatusChange_def Let_def)



lemma status_step_frame [simp]:
  "transactionsTable (snd (status_step input current now s)) = transactionsTable s"
  "transactionItemsTable (snd (status_step input current now s)) = transactionItemsTable s"
  by (simp_all add: status_step_def)


text \<open>The handler on an existing transaction: the status change, then one write of the
  row. The row is written from the row read at the start, since the status change
  leaves the table of transactions alone.\<close>

lemma updateTransaction_found:
  assumes "transactionsTable s (ut_id input) = Some current"
  shows "updateTransaction input now s =
     (case status_step input current now s of
        (Inl e, s1) \<Rightarrow> (Inl e, s1)
      | (Inr u, s1) \<Rightarrow>
          (Inr (updateData input (new_final_amount input current) now current),
           s1\<lparr>transactionsTable := (transactionsTable s)
                (ut_id input \<mapsto> updateData input (new_final_amount input current) now current)\<rparr>))"
proof -
  obtain r s1 where st: "status_step input current now s = (r, s1)"
    by (cases "status_step input current now s")
  have tt: "transactionsTable s1 = transactionsTable s"
    using status_step_frame(1) [of input current now s] by (simp add: st)
  show ?thesis
    using assms st tt
    unfolding updateTransaction_def
    by (cases r) (simp_all add: Let_def status_step_def new_final_amount_def)
qed

lemma money_value_difference:
  assumes "money_value a" and "money_value b"
  shows "fits_numeric_10_2 (a - b)"
proof -
  from assms have a: "of_int \<lfloor>a * 100\<rfloor> = a * 100" "0 \<le> a" "a < 100000000"
    and b: "of_int \<lfloor>b * 100\<rfloor> = b * 100" "0 \<le> b" "b < 100000000"
    by (auto simp: money_value_def fits_numeric_10_2_def)
  from a(1) obtain m :: int where m: "a * 100 = of_int m"
    by metis
  from b(1) obtain n :: int where n: "b * 100 = of_int n"
    by metis
  have "(a - b) * 100 = a * 100 - b * 100"
    by (simp add: algebra_simps)
  also have "\<dots> = of_int (m - n)"
    by (simp add: m n)
  finally have d: "(a - b) * 100 = of_int (m - n)" .
  have "of_int \<lfloor>(a - b) * 100\<rfloor> = (a - b) * 100"
    unfolding d by simp
  moreover have "\<bar>a - b\<bar> < 100000000"
    using a(2,3) b(2,3) by linarith
  ultimately show ?thesis
    unfolding fits_numeric_10_2_def by (rule conjI)
qed

text \<open>
  C7: let the stored and the patched \<^verbatim>\<open>total_amount\<close> and \<^verbatim>\<open>discount_amount\<close> be money
  values of the data model (not negative, at most two decimals, below \<open>10^8\<close>). After a
  successful \<^verbatim>\<open>updateTransaction\<close> the stored row is the returned one, and its
  \<^verbatim>\<open>final_amount\<close> is the effective total minus the effective discount when the patch
  names \<^verbatim>\<open>total_amount\<close> or \<^verbatim>\<open>discount_amount\<close> (each effective value being the patched
  one when present and the stored one otherwise), and the stored \<^verbatim>\<open>final_amount\<close> when
  the patch names neither. That difference has at most two decimals and fits the
  column, which therefore stores it as it is.
\<close>

theorem updateTransaction_final_amount:
  assumes "updateTransaction input now s = (Inr t, s')"
    and "transactionsTable s (ut_id input) = Some current"
    and "money_value (tx_total_amount current)"
    and "money_value (tx_discount_amount current)"
    and "case ut_total_amount input of None \<Rightarrow> True | Some v \<Rightarrow> money_value v"
    and "case ut_discount_amount input of None \<Rightarrow> True | Some v \<Rightarrow> money_value v"
  shows "transactionsTable s' (ut_id input) = Some t
       \<and> tx_final_amount t =
           (if ut_total_amount input = None \<and> ut_discount_amount input = None
            then tx_final_amount current
            else (case ut_total_amount input of
                    Some v \<Rightarrow> v | None \<Rightarrow> tx_total_amount current)
               - (case ut_discount_amount input of
                    Some v \<Rightarrow> v | None \<Rightarrow> tx_discount_amount current))
       \<and> fits_numeric_10_2
           ((case ut_total_amount input of
               Some v \<Rightarrow> v | None \<Rightarrow> tx_total_amount current)
            - (case ut_discount_amount input of
                 Some v \<Rightarrow> v | None \<Rightarrow> tx_discount_amount current))"
proof -
  have total: "money_value (case ut_total_amount input of
                              Some v \<Rightarrow> v | None \<Rightarrow> tx_total_amount current)"
    using assms(3,5) by (cases "ut_total_amount input") simp_all
  have discount: "money_value (case ut_discount_amount input of
                                 Some v \<Rightarrow> v | None \<Rightarrow> tx_discount_amount current)"
    using assms(4,6) by (cases "ut_discount_amount input") simp_all
  have stored: "transactionsTable s' (ut_id input) = Some t
       \<and> tx_final_amount t =
           (if ut_total_amount input = None \<and> ut_discount_amount input = None
            then tx_final_amount current
            else (case ut_total_amount input of
                    Some v \<Rightarrow> v | None \<Rightarrow> tx_total_amount current)
               - (case ut_discount_amount input of
                    Some v \<Rightarrow> v | None \<Rightarrow> tx_discount_amount current))"
    using assms(1) unfolding updateTransaction_found [OF assms(2)]
    by (auto simp: updateData_def new_final_amount_def Let_def
             split: prod.splits sum.splits option.splits)
  from stored money_value_difference [OF total discount] show ?thesis
    by simp
qed

theorem updateTransaction_final_amount_witness:
  "map_option tx_final_amount
     (transactionsTable (snd (updateTransaction basic_update 9 (test_db Pending 100 50))) 1)
     = Some (4998 / 100)
   \<and> fits_numeric_10_2 (4998 / 100)"
proof -
  let ?r = "updateTransaction basic_update 9 (test_db Pending 100 50)"
  let ?current = "\<lparr>tx_id = 1, tx_customer_id = Some 1, tx_user_id = 1,
                tx_total_amount = 5998 / 100, tx_discount_amount = 5,
                tx_final_amount = 5498 / 100, tx_status = Pending,
                tx_payment_method = Some ''cash'', tx_notes = Some ''Test transaction'',
                tx_created_at = 0, tx_updated_at = 0\<rparr>"
  have h1: "?r =
     (Inr \<lparr>tx_id = 1, tx_customer_id = Some 1, tx_user_id = 1,
           tx_total_amount = 5998 / 100, tx_discount_amount = 10,
           tx_final_amount = 4998 / 100, tx_status = Pending,
           tx_payment_method = Some ''credit_card'', tx_notes = Some ''Updated notes'',
           tx_created_at = 0, tx_updated_at = 9\<rparr>, snd ?r)"
    by (simp add: ut_eval test_db_def basic_update_def)
  have h2: "transactionsTable (test_db Pending 100 50) (ut_id basic_update) = Some ?current"
    by (simp add: test_db_def basic_update_def)
  have h3: "money_value (tx_total_amount ?current)"
    by (simp add: money_value_def fits_numeric_10_2_def)
  have h4: "money_value (tx_discount_amount ?current)"
    by (simp add: money_value_def fits_numeric_10_2_def)
  have h5: "case ut_total_amount basic_update of None \<Rightarrow> True | Some v \<Rightarrow> money_value v"
    by (simp add: basic_update_def)
  have h6: "case ut_discount_amount basic_update of None \<Rightarrow> True | Some v \<Rightarrow> money_value v"
    by (simp add: basic_update_def money_value_def fits_numeric_10_2_def)
  from updateTransaction_final_amount [OF h1 h2 h3 h4 h5 h6] show ?thesis
    by (simp add: basic_update_def)
qed

text \<open>
  C8: an \<^verbatim>\<open>updateTransaction\<close> on an existing transaction whose stored and patched status
  are neither (completed, cancelled) nor (cancelled, completed) -- the patch may name the
  stored status or no status -- succeeds, changes no product row and creates no
  inventory movement.
\<close>

theorem other_status_changes_leave_inventory:
  assumes "transactionsTable s (ut_id input) = Some current"
    and "\<not> (tx_status current = Completed \<and> ut_status input = Some Cancelled)"
    and "\<not> (tx_status current = Cancelled \<and> ut_status input = Some Completed)"
  shows "(\<exists>t. fst (updateTransaction input now s) = Inr t)
       \<and> productsTable (snd (updateTransaction input now s)) = productsTable s
       \<and> inventoryMovementsTable (snd (updateTransaction input now s))
           = inventoryMovementsTable s"
proof -
  have "status_step input current now s = (Inr (), s)"
    using assms(2,3)
    by (cases "ut_status input") (auto simp: status_step_def handleStatusChange_other)
  then show ?thesis
    unfolding updateTransaction_found [OF assms(1)] by simp
qed

text \<open>The witness: pending to completed, the transition of the test
  \<^verbatim>\<open>should update status without inventory changes for non-critical transitions\<close>.\<close>

theorem other_status_changes_leave_inventory_witness:
  "(\<exists>t. fst (updateTransaction (status_input Completed) 9 (test_db Pending 100 50)) = Inr t)
   \<and> productsTable (snd (updateTransaction (status_input Completed) 9 (test_db Pending 100 50)))
       = productsTable (test_db Pending 100 50)
   \<and> inventoryMovementsTable
        (snd (updateTransaction (status_input Completed) 9 (test_db Pending 100 50)))
       = []"
proof -
  have h1: "transactionsTable (test_db Pending 100 50) (ut_id (status_input Completed))
      = Some \<lparr>tx_id = 1, tx_customer_id = Some 1, tx_user_id = 1,
                tx_total_amount = 5998 / 100, tx_discount_amount = 5,
                tx_final_amount = 5498 / 100, tx_status = Pending,
                tx_payment_method = Some ''cash'', tx_notes = Some ''Test transaction'',
                tx_created_at = 0, tx_updated_at = 0\<rparr>"
    by (simp add: test_db_def status_input_def)
  from other_status_changes_leave_inventory [OF h1, of 9] show ?thesis
    by (simp add: status_input_def, simp add: test_db_def)
qed

text \<open>
  C10: after a successful \<^verbatim>\<open>updateTransaction\<close> every field of the row that the patch
  does not name has its stored value -- \<^verbatim>\<open>id\<close>, \<^verbatim>\<open>user_id\<close> and \<^verbatim>\<open>created_at\<close>, which no
  patch can name, and \<^verbatim>\<open>status\<close> when it is not patched, among them --, every patched
  field has the patched value, \<^verbatim>\<open>final_amount\<close> is kept unless \<^verbatim>\<open>total_amount\<close> or
  \<^verbatim>\<open>discount_amount\<close> is patched, \<^verbatim>\<open>updated_at\<close> is the time of the call, no other row of
  the table changes, and the table of transaction items is not modified.
\<close>

theorem updateTransaction_frame:
  assumes "updateTransaction input now s = (Inr t, s')"
    and "transactionsTable s (ut_id input) = Some current"
  shows "tx_id t = tx_id current
       \<and> tx_user_id t = tx_user_id current
       \<and> tx_created_at t = tx_created_at current
       \<and> tx_customer_id t =
           (case ut_customer_id input of None \<Rightarrow> tx_customer_id current | Some v \<Rightarrow> v)
       \<and> tx_total_amount t =
           (case ut_total_amount input of None \<Rightarrow> tx_total_amount current | Some v \<Rightarrow> v)
       \<and> tx_discount_amount t =
           (case ut_discount_amount input of None \<Rightarrow> tx_discount_amount current | Some v \<Rightarrow> v)
       \<and> tx_status t =
           (case ut_status input of None \<Rightarrow> tx_status current | Some v \<Rightarrow> v)
       \<and> tx_payment_method t =
           (case ut_payment_method input of None \<Rightarrow> tx_payment_method current | Some v \<Rightarrow> v)
       \<and> tx_notes t =
           (case ut_notes input of None \<Rightarrow> tx_notes current | Some v \<Rightarrow> v)
       \<and> (ut_total_amount input = None \<and> ut_discount_amount input = None
            \<longrightarrow> tx_final_amount t = tx_final_amount current)
       \<and> tx_updated_at t = now
       \<and> transactionsTable s' = (transactionsTable s)(ut_id input \<mapsto> t)
       \<and> transactionItemsTable s' = transactionItemsTable s"
proof -
  obtain r s1 where st: "status_step input current now s = (r, s1)"
    by (cases "status_step input current now s")
  have it: "transactionItemsTable s1 = transactionItemsTable s"
    using status_step_frame(2) [of input current now s] by (simp add: st)
  from assms(1) have t: "t = updateData input (new_final_amount input current) now current"
    and s': "s' = s1\<lparr>transactionsTable := (transactionsTable s)(ut_id input \<mapsto> t)\<rparr>"
    unfolding updateTransaction_found [OF assms(2)] st by (cases r; simp)+
  show ?thesis
    unfolding s'
    by (simp add: it,
        simp add: t updateData_def Let_def new_final_amount_def split: option.split)
qed

theorem updateTransaction_frame_witness:
  "updateTransaction basic_update 9 (test_db Pending 100 50) =
     (Inr \<lparr>tx_id = 1, tx_customer_id = Some 1, tx_user_id = 1,
           tx_total_amount = 5998 / 100, tx_discount_amount = 10,
           tx_final_amount = 4998 / 100, tx_status = Pending,
           tx_payment_method = Some ''credit_card'', tx_notes = Some ''Updated notes'',
           tx_created_at = 0, tx_updated_at = 9\<rparr>,
      snd (updateTransaction basic_update 9 (test_db Pending 100 50)))
   \<and> transactionItemsTable (snd (updateTransaction basic_update 9 (test_db Pending 100 50)))
       = transactionItemsTable (test_db Pending 100 50)"
proof -
  let ?r = "updateTransaction basic_update 9 (test_db Pending 100 50)"
  have h1: "?r =
     (Inr \<lparr>tx_id = 1, tx_customer_id = Some 1, tx_user_id = 1,
           tx_total_amount = 5998 / 100, tx_discount_amount = 10,
           tx_final_amount = 4998 / 100, tx_status = Pending,
           tx_payment_method = Some ''credit_card'', tx_notes = Some ''Updated notes'',
           tx_created_at = 0, tx_updated_at = 9\<rparr>, snd ?r)"
    by (simp add: ut_eval test_db_def basic_update_def)
  have h2: "transactionsTable (test_db Pending 100 50) (ut_id basic_update)
      = Some \<lparr>tx_id = 1, tx_customer_id = Some 1, tx_user_id = 1,
                tx_total_amount = 5998 / 100, tx_discount_amount = 5,
                tx_final_amount = 5498 / 100, tx_status = Pending,
                tx_payment_method = Some ''cash'', tx_notes = Some ''Test transaction'',
                tx_created_at = 0, tx_updated_at = 0\<rparr>"
    by (simp add: test_db_def basic_update_def)
  from updateTransaction_frame [OF h1 h2] h1 show ?thesis
    by simp
qed

subsection \<open>A status change that fails half-way\<close>

text \<open>
  C2 says that a change from cancelled to completed that fails on one item is rolled
  back as a whole. The handler runs outside any transaction, so what the items before
  the failing one wrote stays. On the test database with stock 100 and 0, the second item
  fails; the call returns the insufficient-stock error and leaves the transaction row
  as it was, but product 1 has lost one unit and the ledger has gained an \<^verbatim>\<open>out\<close> entry.
\<close>

theorem failed_completion_is_not_rolled_back:
  "fst (updateTransaction (status_input Completed) 9 (test_db Cancelled 100 0))
     = Inl (InsufficientStock 0 1)
   \<and> map_option stock_quantity (productsTable (test_db Cancelled 100 0) 1) = Some 100
   \<and> map_option stock_quantity
        (productsTable
           (snd (updateTransaction (status_input Completed) 9 (test_db Cancelled 100 0))) 1)
       = Some 99
   \<and> inventoryMovementsTable (test_db Cancelled 100 0) = []
   \<and> map ledger_key
        (inventoryMovementsTable
           (snd (updateTransaction (status_input Completed) 9 (test_db Cancelled 100 0))))
       = [(1, Out, 1, Some ''transaction_completion'', Some 1)]
   \<and> transactionsTable
        (snd (updateTransaction (status_input Completed) 9 (test_db Cancelled 100 0)))
       = transactionsTable (test_db Cancelled 100 0)"
  by (simp add: ut_eval ledger_key_def test_db_def status_input_def)

text \<open>
  C1 says that an operation that would drive a stock below zero fails and leaves the
  stock at its prior value. Create a sale of two line items of 3 units of one product at
  stock 10, cancel it, and record a movement of 5 units out: the three calls succeed and
  the stock is 5. The change from cancelled to completed then fails on the second item,
  and the stock is left at 2, not at 5.
\<close>

theorem failed_completion_leaves_stock_changed:
  "\<not> isl (fst (createTransaction double_sale 1 shop_db))
   \<and> \<not> isl (fst (updateTransaction (status_input Cancelled) 2 sold_db))
   \<and> \<not> isl (fst (createInventoryMovement (movement_input Out 5) 3 cancelled_db))
   \<and> map_option stock_quantity (productsTable depleted_db 1) = Some 5
   \<and> fst (updateTransaction (status_input Completed) 4 depleted_db)
       = Inl (InsufficientStock 2 3)
   \<and> map_option stock_quantity
        (productsTable (snd (updateTransaction (status_input Completed) 4 depleted_db)) 1)
       = Some 2"
  by (simp add: depleted_db_def cancelled_db_def sold_db_def ct_eval ut_eval cim_defs
        shop_db_def double_sale_def status_input_def movement_input_def)

subsection \<open>Cancelling a sale and completing it again\<close>

lemma item_total_Nil [simp]: "item_total pid [] = 0"
  by (simp add: item_total_def)

lemma item_total_Cons [simp]:
  "item_total pid (item # items) =
     (if item_product_id item = pid then item_quantity item else 0) + item_total pid items"
  by (simp add: item_total_def)


lemma stock_of_update_stock [simp]:
  "stock_of (update_stock pid f now s) pid' =
     (if pid' = pid then map_option f (stock_of s pid) else stock_of s pid')"
  by (simp add: stock_of_def update_stock_def split: option.split)

lemma stock_of_insert_movement [simp]:
  "stock_of (snd (insert_movement pid mt q rt rid n now s)) pid' = stock_of s pid'"
  by (simp add: stock_of_def)

lemma stock_of_transactionsTable_update [simp]:
  "stock_of (s\<lparr>transactionsTable := x\<rparr>) pid = stock_of s pid"
  by (simp add: stock_of_def)






subsection \<open>No negative stock\<close>

lemma stock_nonneg_update_stock:
  assumes "stock_nonneg s"
    and "\<And>p. productsTable s pid = Some p \<Longrightarrow> 0 \<le> f (stock_quantity p)"
  shows "stock_nonneg (update_stock pid f now s)"
  using assms by (auto simp: stock_nonneg_def update_stock_def split: option.splits)

lemma stock_nonneg_insert_movement [simp]:
  "stock_nonneg (snd (insert_movement pid mt q rt rid n now s)) = stock_nonneg s"
  by (simp add: stock_nonneg_def)

text \<open>
  X1: \<^verbatim>\<open>createInventoryMovement\<close>, whether it succeeds or fails, leaves no product with a
  negative stock if none had one before.
\<close>

theorem createInventoryMovement_keeps_stock_nonneg:
  assumes "stock_nonneg s"
  shows "stock_nonneg (snd (createInventoryMovement input now s))"
proof (cases "productsTable s (cim_product_id input)")
  case None
  then show ?thesis
    using assms by (simp add: createInventoryMovement_missing)
next
  case (Some p)
  show ?thesis
    unfolding createInventoryMovement_found [OF Some]
    using assms by (auto simp: Let_def stock_nonneg_def)
qed

lemma stock_nonneg_test_db: "0 \<le> q1 \<Longrightarrow> 0 \<le> q2 \<Longrightarrow> stock_nonneg (test_db st q1 q2)"
  by (simp add: stock_nonneg_def test_db_def)

theorem createInventoryMovement_keeps_stock_nonneg_witness:
  "stock_nonneg (test_db Pending 100 50)
   \<and> stock_nonneg (snd (createInventoryMovement (movement_input Out 30) 7 (test_db Pending 100 50)))"
proof -
  have h: "stock_nonneg (test_db Pending 100 50)"
    by (simp add: stock_nonneg_test_db)
  from createInventoryMovement_keeps_stock_nonneg [OF h] h show ?thesis
    by simp
qed

text \<open>
  X4: a \<^verbatim>\<open>createInventoryMovement\<close> that fails leaves the database as it was.
\<close>

theorem createInventoryMovement_failure_changes_nothing:
  assumes "fst (createInventoryMovement input now s) = Inl e"
  shows "snd (createInventoryMovement input now s) = s"
proof (cases "productsTable s (cim_product_id input)")
  case None
  then show ?thesis
    by (simp add: createInventoryMovement_missing)
next
  case (Some p)
  show ?thesis
    using assms unfolding createInventoryMovement_found [OF Some]
    by (auto simp: Let_def split: if_splits)
qed

theorem createInventoryMovement_failure_changes_nothing_witness:
  "fst (createInventoryMovement (movement_input Out 200) 7 (test_db Pending 70 50))
     = Inl (InsufficientStock 70 200)
   \<and> snd (createInventoryMovement (movement_input Out 200) 7 (test_db Pending 70 50))
     = test_db Pending 70 50"
proof -
  have h: "fst (createInventoryMovement (movement_input Out 200) 7 (test_db Pending 70 50))
     = Inl (InsufficientStock 70 200)"
    by (simp add: cim_defs test_db_def movement_input_def)
  from createInventoryMovement_failure_changes_nothing [OF h] h show ?thesis
    by simp
qed

lemma stock_nonneg_createTransaction_items:
  "stock_nonneg s \<Longrightarrow> stock_nonneg (snd (createTransaction_items transaction now items s))"
proof (induction items arbitrary: s)
  case Nil
  then show ?case by simp
next
  case (Cons item items)
  show ?case
  proof (cases "productsTable s (ci_product_id item)")
    case None
    then show ?thesis using Cons.prems by (simp add: createTransaction_items_Cons)
  next
    case (Some product)
    show ?thesis
    proof (cases "stock_quantity product < ci_quantity item")
      case True
      with Some show ?thesis using Cons.prems by (simp add: createTransaction_items_Cons)
    next
      case False
      let ?s1 = "s\<lparr>transactionItemsTable := transactionItemsTable s @
                                 [\<lparr>item_id = transaction_items_id_seq s,
                                   item_transaction_id = tx_id transaction,
                                   item_product_id = ci_product_id item,
                                   item_quantity = ci_quantity item,
                                   item_unit_price = ci_unit_price item,
                                   item_total_price =
                                     ci_unit_price item * of_int (ci_quantity item),
                                   item_created_at = now\<rparr>],
                               transaction_items_id_seq := transaction_items_id_seq s + 1\<rparr>"
      have "stock_nonneg ?s1"
        using Cons.prems by (simp add: stock_nonneg_def)
      then have "stock_nonneg (update_stock (ci_product_id item)
                    (\<lambda>_. stock_quantity product - ci_quantity item) now ?s1)"
        using False by (intro stock_nonneg_update_stock) simp_all
      then show ?thesis
        using Some False by (simp add: createTransaction_items_Cons Cons.IH)
    qed
  qed
qed

lemma stock_nonneg_createTransaction_body:
  assumes "stock_nonneg s"
  shows "stock_nonneg (snd (createTransaction_body input now s))"
proof -
  have snd_case: "snd (case x of (Inl e, s1) \<Rightarrow> (Inl e, s1) | (Inr u, s1) \<Rightarrow> (Inr t, s1)) = snd x"
    for x :: "(error + unit) \<times> db" and t :: transaction_row
    by (auto split: prod.split sum.split)
  have "stock_nonneg (s\<lparr>transactionsTable := tt, transactions_id_seq := n\<rparr>)" for tt n
    using assms by (simp add: stock_nonneg_def)
  then show ?thesis
    unfolding createTransaction_body_def Let_def snd_case
    by (rule stock_nonneg_createTransaction_items)
qed

text \<open>
  X2: \<^verbatim>\<open>createTransaction\<close>, whether it succeeds or fails, leaves no product with a
  negative stock if none had one before.
\<close>

theorem createTransaction_keeps_stock_nonneg:
  assumes "stock_nonneg s"
  shows "stock_nonneg (snd (createTransaction input now s))"
proof -
  obtain r s1 where body: "createTransaction_body input now s = (r, s1)"
    by (cases "createTransaction_body input now s")
  have s1: "stock_nonneg s1"
    using stock_nonneg_createTransaction_body [OF assms, of input now] by (simp add: body)
  have "stock_nonneg (rollback s s1)"
    using assms by (simp add: stock_nonneg_def rollback_def)
  with s1 show ?thesis
    unfolding createTransaction_def db_transaction_def body
    by (cases r) simp_all
qed

theorem createTransaction_keeps_stock_nonneg_witness:
  "stock_nonneg (test_db Pending 100 50)
   \<and> stock_nonneg (snd (createTransaction (sale_input 2 1) 9 (test_db Pending 100 50)))"
proof -
  have h: "stock_nonneg (test_db Pending 100 50)"
    by (simp add: stock_nonneg_test_db)
  from createTransaction_keeps_stock_nonneg [OF h] h show ?thesis
    by simp
qed

lemma stock_nonneg_restore_items:
  assumes "stock_nonneg s" and "\<forall>i\<in>set items. 0 \<le> item_quantity i"
  shows "stock_nonneg (restore_items tid now items s)"
  using assms
proof (induction items arbitrary: s)
  case Nil
  then show ?case by simp
next
  case (Cons item items)
  have "stock_nonneg (update_stock (item_product_id item) (\<lambda>q. q + item_quantity item) now s)"
    using Cons.prems by (intro stock_nonneg_update_stock) (auto simp: stock_nonneg_def)
  then show ?case
    using Cons.prems(2) by (simp add: restore_items_Cons Cons.IH)
qed

lemma stock_nonneg_reduce_items:
  "stock_nonneg s \<Longrightarrow> stock_nonneg (snd (reduce_items tid now items s))"
proof (induction items arbitrary: s)
  case Nil
  then show ?case by simp
next
  case (Cons item items)
  show ?case
  proof (cases "productsTable s (item_product_id item)")
    case None
    then show ?thesis using Cons.prems by (simp add: reduce_items_Cons)
  next
    case (Some product)
    show ?thesis
    proof (cases "stock_quantity product < item_quantity item")
      case True
      with Some show ?thesis using Cons.prems by (simp add: reduce_items_Cons)
    next
      case False
      have "stock_nonneg (update_stock (item_product_id item)
                    (\<lambda>q. q - item_quantity item) now s)"
        using Cons.prems Some False by (intro stock_nonneg_update_stock) simp_all
      then show ?thesis
        using Some False by (simp add: reduce_items_Cons Cons.IH)
    qed
  qed
qed

lemma stock_nonneg_handleStatusChange:
  assumes "stock_nonneg s"
    and "\<forall>i\<in>set (transactionItemsTable s). item_transaction_id i = tid \<longrightarrow> 0 \<le> item_quantity i"
  shows "stock_nonneg (snd (handleStatusChange tid cur new now s))"
proof -
  have "stock_nonneg (restore_items tid now
          (filter (\<lambda>i. item_transaction_id i = tid) (transactionItemsTable s)) s)"
    using assms by (intro stock_nonneg_restore_items) simp_all
  then show ?thesis
    using assms(1)
    by (simp add: handleStatusChange_def Let_def stock_nonneg_reduce_items)
qed

text \<open>
  X3: \<^verbatim>\<open>updateTransaction\<close>, whether it succeeds or fails, leaves no product with a
  negative stock if none had one before and no line item of the transaction has a
  negative quantity.
\<close>

theorem updateTransaction_keeps_stock_nonneg:
  assumes "stock_nonneg s"
    and "\<forall>i\<in>set (transactionItemsTable s).
           item_transaction_id i = ut_id input \<longrightarrow> 0 \<le> item_quantity i"
  shows "stock_nonneg (snd (updateTransaction input now s))"
proof (cases "transactionsTable s (ut_id input)")
  case None
  then show ?thesis
    using assms(1) by (simp add: updateTransaction_def)
next
  case (Some current)
  obtain r s1 where st: "status_step input current now s = (r, s1)"
    by (cases "status_step input current now s")
  have "stock_nonneg (snd (status_step input current now s))"
    using assms by (simp add: status_step_def stock_nonneg_handleStatusChange)
  then have "stock_nonneg s1"
    by (simp add: st)
  then show ?thesis
    unfolding updateTransaction_found [OF Some] st
    by (cases r) (simp_all add: stock_nonneg_def)
qed

theorem updateTransaction_keeps_stock_nonneg_witness:
  "stock_nonneg (test_db Cancelled 100 0)
   \<and> stock_nonneg (snd (updateTransaction (status_input Completed) 9 (test_db Cancelled 100 0)))"
proof -
  have h1: "stock_nonneg (test_db Cancelled 100 0)"
    by (simp add: stock_nonneg_test_db)
  have h2: "\<forall>i\<in>set (transactionItemsTable (test_db Cancelled 100 0)).
           item_transaction_id i = ut_id (status_input Completed) \<longrightarrow> 0 \<le> item_quantity i"
    by (simp add: test_db_def)
  from updateTransaction_keeps_stock_nonneg [OF h1 h2] h1 show ?thesis
    by simp
qed

text \<open>
  X5: an \<^verbatim>\<open>updateTransaction\<close> that fails writes no transaction row and no transaction
  item.
\<close>

theorem updateTransaction_failure_keeps_transaction_rows:
  assumes "fst (updateTransaction input now s) = Inl e"
  shows "transactionsTable (snd (updateTransaction input now s)) = transactionsTable s
       \<and> transactionItemsTable (snd (updateTransaction input now s)) = transactionItemsTable s"
proof (cases "transactionsTable s (ut_id input)")
  case None
  then show ?thesis
    by (simp add: updateTransaction_def)
next
  case (Some current)
  obtain r s1 where st: "status_step input current now s = (r, s1)"
    by (cases "status_step input current now s")
  have frame: "transactionsTable s1 = transactionsTable s"
      "transactionItemsTable s1 = transactionItemsTable s"
    using status_step_frame [of input current now s] by (simp_all add: st)
  show ?thesis
    using assms frame unfolding updateTransaction_found [OF Some] st
    by (cases r) simp_all
qed

theorem updateTransaction_failure_keeps_transaction_rows_witness:
  "fst (updateTransaction (status_input Completed) 9 (test_db Cancelled 100 0))
     = Inl (InsufficientStock 0 1)
   \<and> transactionsTable (snd (updateTransaction (status_input Completed) 9 (test_db Cancelled 100 0)))
     = transactionsTable (test_db Cancelled 100 0)
   \<and> transactionItemsTable
       (snd (updateTransaction (status_input Completed) 9 (test_db Cancelled 100 0)))
     = transactionItemsTable (test_db Cancelled 100 0)"
proof -
  have h: "fst (updateTransaction (status_input Completed) 9 (test_db Cancelled 100 0))
     = Inl (InsufficientStock 0 1)"
    by (simp add: ut_eval test_db_def status_input_def)
  from updateTransaction_failure_keeps_transaction_rows [OF h] h show ?thesis
    by simp
qed

end
